theory Spec2Isabelle
  imports Main "HOL-Library.Sublist" "HOL-Library.Code_Target_Nat"
begin

section \<open>Python string primitives used by YTGrabber\<close>

text \<open>
  URLs, command-line arguments and the content-type labels are Python \<open>str\<close> values; they
  are modelled as \<open>string\<close>. The labels stay strings (\<open>'video'\<close>, \<open>'playlist'\<close>,
  \<open>'channel'\<close>) as in the source, so that what a function may return is a theorem and not
  a typing fact.
\<close>

text \<open>\<open>s.startswith(p)\<close>\<close>

fun startswith :: "string \<Rightarrow> string \<Rightarrow> bool" where
  "startswith s [] = True"
| "startswith [] (p # ps) = False"
| "startswith (c # s) (p # ps) = (c = p \<and> startswith s ps)"

text \<open>\<open>s.startswith((p1, p2, ...))\<close>: true when one of the prefixes matches.\<close>

definition startswith_any :: "string \<Rightarrow> string list \<Rightarrow> bool" where
  "startswith_any s ps = list_ex (\<lambda>p. startswith s p) ps"

text \<open>\<open>p in s\<close> on strings: \<open>p\<close> occurs in \<open>s\<close> as a contiguous block.\<close>

fun str_in :: "string \<Rightarrow> string \<Rightarrow> bool" where
  "str_in p [] = (p = [])"
| "str_in p (c # s) = (startswith (c # s) p \<or> str_in p s)"

text \<open>\<open>any(pattern in url for pattern in patterns)\<close>\<close>

definition any_in :: "string list \<Rightarrow> string \<Rightarrow> bool" where
  "any_in patterns url = list_ex (\<lambda>pattern. str_in pattern url) patterns"

text \<open>
  \<open>str.strip()\<close> removes leading and trailing whitespace. The whitespace characters are
  those of \<open>str.isspace\<close> among the code points an Isabelle \<open>char\<close> can hold.
\<close>

definition is_space :: "char \<Rightarrow> bool" where
  "is_space c = (c \<in> set [CHR 0x09, CHR 0x0A, CHR 0x0B, CHR 0x0C, CHR 0x0D,
                            CHR 0x1C, CHR 0x1D, CHR 0x1E, CHR 0x1F, CHR 0x20,
                            CHR 0x85, CHR 0xA0])"

definition strip :: "string \<Rightarrow> string" where
  "strip s = rev (dropWhile is_space (rev (dropWhile is_space s)))"

section \<open>URL normalizer and content classifier\<close>

text \<open>\<open>YTGrabber.normalize_url\<close>\<close>

definition normalize_url :: "string \<Rightarrow> string" where
  "normalize_url url =
     (if startswith url ''@'' then ''https://www.youtube.com/'' @ url
      else if \<not> startswith_any url [''http://'', ''https://''] then
        (if startswith_any url [''youtube.com'', ''www.youtube.com'', ''m.youtube.com'', ''youtu.be'']
         then ''https://'' @ url
         else url)
      else url)"

text \<open>
  \<open>subprocess.run(cmd, capture_output=True, text=True, check=False)\<close> as seen by
  \<open>probe_url_type\<close>: either the call raises (the program is missing, its output cannot be
  decoded, ...) or it completes and \<open>result.stdout\<close> is some text. The exit status is not
  read by the source. What the external downloader answers is a parameter of the model: a
  function from the command line to the outcome.
\<close>

datatype run_result = RunRaised | Completed (stdout: string)

type_synonym runner = "string list \<Rightarrow> run_result"

definition probe_command :: "string \<Rightarrow> string list" where
  "probe_command url =
     [''yt-dlp'', ''--skip-download'', ''--print'', ''webpage_url'', ''--no-warnings'', url]"

text \<open>\<open>YTGrabber.probe_url_type\<close>; the \<open>except Exception\<close> branch is the \<open>RunRaised\<close> case.\<close>

definition probe_url_type :: "runner \<Rightarrow> string \<Rightarrow> string" where
  "probe_url_type run url =
     (case run (probe_command url) of
        RunRaised \<Rightarrow> ''video''
      | Completed out \<Rightarrow>
          (let output_url = strip out in
           if str_in ''list='' output_url then ''playlist''
           else if any_in [''/channel/'', ''/c/'', ''/user/'', ''@''] output_url then
             (if \<not> any_in [''watch?v='', ''/shorts/''] output_url then ''channel''
              else ''video'')
           else ''video''))"

text \<open>\<open>YTGrabber.get_content_type\<close>\<close>

definition get_content_type :: "runner \<Rightarrow> string \<Rightarrow> string" where
  "get_content_type run url0 =
     (let url = normalize_url url0 in
      if str_in ''/shorts/'' url then ''video''
      else if any_in [''/c/'', ''/channel/'', ''/user/'', ''@''] url then
        (if str_in ''/videos'' url then ''channel''
         else probe_url_type run url)
      else if str_in ''list='' url then ''playlist''
      else ''video'')"

section \<open>Cookie synthesizer\<close>

text \<open>
  The part of the program state and of the machine that the modelled functions read and
  change: the cached \<open>self.cookie_file\<close>, the files on disk (path to content), and the
  download commands handed to \<open>subprocess.Popen\<close> so far, oldest first.
\<close>

record world =
  cookie_file :: "string option"
  files :: "string \<rightharpoonup> string"
  launched :: "string list list"

text \<open>
  What the program draws from the clock, the random generator and the temporary-file
  module during one call of \<open>build_download_command\<close>.
\<close>

record env =
  timestamp :: string
  today :: string
  clock :: int
  agent_index :: nat
  tmp_dir :: string
  tmp_names :: "string list"
  can_open :: bool
  visitor_id :: string
  ysc :: string
  consent_number :: int

datatype py_error = KeyError | FileExistsError | OSError

text \<open>\<open>str(n)\<close> for an integer.\<close>

fun str_nat :: "nat \<Rightarrow> string" where
  "str_nat n =
     (if n < 10 then [char_of (48 + n)]
      else str_nat (n div 10) @ [char_of (48 + n mod 10)])"

declare str_nat.simps [simp del]

definition str_int :: "int \<Rightarrow> string" where
  "str_int i = (if i < 0 then ''-'' @ str_nat (nat (- i)) else str_nat (nat i))"

text \<open>\<open>os.path.join(dir, name)\<close> for a relative \<open>name\<close> (POSIX).\<close>

definition path_join :: "string \<Rightarrow> string \<Rightarrow> string" where
  "path_join dir name =
     (if dir = [] \<or> last dir = CHR ''/'' then dir @ name else dir @ ''/'' @ name)"

text \<open>
  \<open>tempfile.mktemp(suffix=".txt")\<close>: the first candidate \<open>dir/tmp<name>.txt\<close> that does
  not exist; \<open>FileExistsError\<close> when every candidate exists. The file is not created.
\<close>

definition mktemp :: "env \<Rightarrow> world \<Rightarrow> py_error + string" where
  "mktemp e w =
     (case find (\<lambda>f. files w f = None)
             (map (\<lambda>name. path_join (tmp_dir e) (''tmp'' @ name @ ''.txt'')) (tmp_names e)) of
        None \<Rightarrow> Inl FileExistsError
      | Some f \<Rightarrow> Inr f)"

definition tab :: string where
  "tab = [CHR 0x09]"

definition newline :: string where
  "newline = [CHR 0x0A]"

definition cookie_line :: "string \<Rightarrow> string \<Rightarrow> string \<Rightarrow> string" where
  "cookie_line expiry name val =
     ''.youtube.com'' @ tab @ ''TRUE'' @ tab @ ''/'' @ tab @ ''TRUE'' @ tab @ expiry @ tab
       @ name @ tab @ val @ newline"

text \<open>The text written by the \<open>with open(cookie_file, 'w')\<close> block.\<close>

definition cookie_text :: "env \<Rightarrow> string" where
  "cookie_text e =
     (let expiry = str_int (clock e + 31536000) in
      ''# Netscape HTTP Cookie File'' @ newline
      @ ''# Created by YTGrabber on '' @ today e @ newline @ newline
      @ cookie_line expiry ''CONSENT'' (''YES+cb.20230717-07-p0.en+FX+'' @ str_int (consent_number e))
      @ cookie_line expiry ''VISITOR_INFO1_LIVE'' (visitor_id e)
      @ cookie_line expiry ''PREF'' ''f6=8&f5=30&hl=en''
      @ cookie_line expiry ''YSC'' (ysc e)
      @ cookie_line expiry ''GPS'' ''1'')"

text \<open>
  \<open>YTGrabber.create_cookie_file\<close>. \<open>self.cookie_file and os.path.exists(...)\<close> holds when
  the cached path is neither \<open>None\<close> nor empty and names an existing file. Opening the
  new file may raise (\<open>can_open\<close> false); the exception leaves the function, as in the
  source, and nothing is cached.
\<close>

definition cookie_cached :: "world \<Rightarrow> bool" where
  "cookie_cached w =
     (case cookie_file w of
        None \<Rightarrow> False
      | Some path \<Rightarrow> path \<noteq> [] \<and> files w path \<noteq> None)"

definition create_cookie_file :: "env \<Rightarrow> world \<Rightarrow> py_error + (string \<times> world)" where
  "create_cookie_file e w =
     (if cookie_cached w then Inr (the (cookie_file w), w)
      else
        (case mktemp e w of
           Inl err \<Rightarrow> Inl err
         | Inr path \<Rightarrow>
             if \<not> can_open e then Inl OSError
             else Inr (path, w\<lparr>cookie_file := Some path,
                                files := (files w)(path \<mapsto> cookie_text e)\<rparr>)))"

section \<open>Command builder\<close>

definition downloads_folder :: string where
  "downloads_folder = ''Downloads''"

definition user_agents :: "string list" where
  "user_agents =
     [''Mozilla/5.0 (Windows NT 10.0; Win64; x64) AppleWebKit/537.36 (KHTML, like Gecko) Chrome/112.0.0.0 Safari/537.36'',
      ''Mozilla/5.0 (Windows NT 10.0; Win64; x64) AppleWebKit/537.36 (KHTML, like Gecko) Chrome/112.0.0.0 Safari/537.36 Edg/112.0.1722.58'',
      ''Mozilla/5.0 (Macintosh; Intel Mac OS X 10_15_7) AppleWebKit/537.36 (KHTML, like Gecko) Chrome/112.0.0.0 Safari/537.36'',
      ''Mozilla/5.0 (Windows NT 10.0; Win64; x64; rv:109.0) Gecko/20100101 Firefox/112.0'',
      ''Mozilla/5.0 (Macintosh; Intel Mac OS X 10_15_7) AppleWebKit/605.1.15 (KHTML, like Gecko) Version/16.4 Safari/605.1.15'']"

text \<open>\<open>YTGrabber.get_random_user_agent\<close>: \<open>random.choice\<close> picks an index below the length.\<close>

definition get_random_user_agent :: "env \<Rightarrow> string" where
  "get_random_user_agent e = user_agents ! (agent_index e mod length user_agents)"

text \<open>The \<open>if\<close>/\<open>elif\<close>/\<open>else\<close> that sets \<open>output_template\<close> in \<open>build_download_command\<close>.\<close>

definition output_template :: "string \<Rightarrow> string \<Rightarrow> string" where
  "output_template content_type ts =
     (if content_type = ''video'' then
        downloads_folder @ ''/%(title)s_'' @ ts @ ''.%(ext)s''
      else if content_type = ''playlist'' then
        downloads_folder @ ''/%(playlist_title)s/%(title)s_'' @ ts @ ''.%(ext)s''
      else
        downloads_folder @ ''/%(uploader)s/%(title)s_'' @ ts @ ''.%(ext)s'')"

definition format_options :: "string \<Rightarrow> string list" where
  "format_options format_type =
     (if format_type = ''audio'' then
        [''--format'', ''bestaudio'', ''--extract-audio'', ''--audio-format'', ''mp3'',
         ''--audio-quality'', ''192K'']
      else if format_type = ''best'' then
        [''--format'', ''bestvideo+bestaudio/best'', ''--merge-output-format'', ''mp4'']
      else
        [''--format'', ''best'', ''--merge-output-format'', ''mp4''])"

text \<open>The \<open>--playlist-items\<close> extension, the same in both command builders.\<close>

definition limit_options :: "string \<Rightarrow> string \<Rightarrow> string list" where
  "limit_options content_type limit =
     (if content_type \<in> set [''playlist'', ''channel''] \<and> limit \<noteq> ''all''
      then [''--playlist-items'', ''1-'' @ limit]
      else [])"

text \<open>
  \<open>YTGrabber.build_download_command\<close>. The list literal calls \<open>create_cookie_file\<close>, so the
  function changes the world and fails when the cookie file cannot be made.
\<close>

definition build_download_command ::
  "env \<Rightarrow> world \<Rightarrow> string \<Rightarrow> string \<Rightarrow> string \<Rightarrow> string \<Rightarrow> py_error + (string list \<times> world)" where
  "build_download_command e w url content_type format_type limit =
     (case create_cookie_file e w of
        Inl err \<Rightarrow> Inl err
      | Inr (cookies, w') \<Rightarrow>
          Inr ([''yt-dlp'', ''--ignore-errors'', ''--no-warnings'', ''--geo-bypass'',
                ''--add-metadata'',
                ''--user-agent'', get_random_user_agent e,
                ''--cookies'', cookies,
                ''--output'', output_template content_type (timestamp e),
                ''--no-overwrites'', ''--continue'']
               @ format_options format_type
               @ limit_options content_type limit
               @ [''--verbose'']
               @ [url], w'))"

section \<open>Download with one fallback\<close>

text \<open>
  The outcome of one \<open>try\<close> block around \<open>subprocess.Popen\<close>: an exception (at launch or
  while the output is read), or the exit status after \<open>process.wait()\<close>. The lines the
  process prints are only echoed to the terminal, which is not modelled. The launcher is a
  parameter: it maps the number of earlier launches and the command to the outcome.
\<close>

datatype proc_result = PopenRaised | Exited (returncode: int)

type_synonym launcher = "nat \<Rightarrow> string list \<Rightarrow> proc_result"

definition fallback_template :: "string \<Rightarrow> string \<Rightarrow> string" where
  "fallback_template content_type ts =
     (if content_type = ''video'' then
        downloads_folder @ ''/%(title)s_fallback_'' @ ts @ ''.%(ext)s''
      else if content_type = ''playlist'' then
        downloads_folder @ ''/%(playlist_title)s/%(title)s_fallback_'' @ ts @ ''.%(ext)s''
      else
        downloads_folder @ ''/%(uploader)s/%(title)s_fallback_'' @ ts @ ''.%(ext)s'')"

text \<open>The command assembled by \<open>download_fallback\<close>; \<open>ts\<close> is its own timestamp.\<close>

definition fallback_command :: "string \<Rightarrow> string \<Rightarrow> string \<Rightarrow> string \<Rightarrow> string \<Rightarrow> string list" where
  "fallback_command ts url content_type format_type limit =
     [''yt-dlp'', ''--ignore-errors'', ''--format'', ''best'',
      ''--output'', fallback_template content_type ts,
      ''--no-overwrites'', ''--geo-bypass'']
     @ (if format_type = ''audio'' then [''--extract-audio'', ''--audio-format'', ''mp3''] else [])
     @ limit_options content_type limit
     @ [url]"

text \<open>\<open>YTGrabber.download_fallback\<close>: it never retries and never raises.\<close>

definition download_fallback ::
  "string \<Rightarrow> launcher \<Rightarrow> world \<Rightarrow> string \<Rightarrow> string \<Rightarrow> string \<Rightarrow> string \<Rightarrow> bool \<times> world" where
  "download_fallback ts popen w url content_type format_type limit =
     (let cmd = fallback_command ts url content_type format_type limit;
          w' = w\<lparr>launched := launched w @ [cmd]\<rparr>
      in case popen (length (launched w)) cmd of
           PopenRaised \<Rightarrow> (False, w')
         | Exited rc \<Rightarrow> if rc = 0 then (True, w') else (False, w'))"

text \<open>
  \<open>YTGrabber.download\<close>. \<open>content_type\<close> is \<open>None\<close>, or a string; \<open>not content_type\<close> holds
  for \<open>None\<close> and for the empty string. \<open>self.supported_formats[format_type]\<close> raises
  \<open>KeyError\<close> for an unknown format before any command is built.
\<close>

definition supported_formats :: "string list" where
  "supported_formats = [''video'', ''audio'', ''best'']"

definition resolve_content_type :: "runner \<Rightarrow> string option \<Rightarrow> string \<Rightarrow> string" where
  "resolve_content_type run content_type url =
     (case content_type of
        None \<Rightarrow> get_content_type run url
      | Some ct \<Rightarrow> if ct = [] then get_content_type run url else ct)"

definition download ::
  "env \<Rightarrow> string \<Rightarrow> runner \<Rightarrow> launcher \<Rightarrow> world \<Rightarrow> string \<Rightarrow> string option \<Rightarrow> string \<Rightarrow> string
     \<Rightarrow> py_error + (bool \<times> world)" where
  "download e fallback_ts run popen w url0 content_type0 format_type limit =
     (let url = normalize_url url0;
          content_type = resolve_content_type run content_type0 url
      in if format_type \<notin> set supported_formats then Inl KeyError
         else
           (case build_download_command e w url content_type format_type limit of
              Inl err \<Rightarrow> Inl err
            | Inr (cmd, w1) \<Rightarrow>
                (let w2 = w1\<lparr>launched := launched w1 @ [cmd]\<rparr> in
                 case popen (length (launched w1)) cmd of
                   Exited rc \<Rightarrow>
                     if rc = 0 then Inr (True, w2)
                     else Inr (download_fallback fallback_ts popen w2 url content_type format_type limit)
                 | PopenRaised \<Rightarrow>
                     Inr (download_fallback fallback_ts popen w2 url content_type format_type limit))))"

section \<open>The classifier as the specification words it\<close>

text \<open>
  The decision order of the specification, written from its words: shorts first, then the
  channel-path markers (with \<open>/videos\<close> deciding for channel and the remaining case handed
  to \<open>delegated\<close>), then \<open>list=\<close>, then the default.
\<close>

definition spec_substring_rules :: "string \<Rightarrow> string \<Rightarrow> string" where
  "spec_substring_rules delegated url =
     (if str_in ''/shorts/'' url then ''video''
      else if str_in ''/c/'' url \<or> str_in ''/channel/'' url \<or> str_in ''/user/'' url
              \<or> str_in ''@'' url then
        (if str_in ''/videos'' url then ''channel'' else delegated)
      else if str_in ''list='' url then ''playlist''
      else ''video'')"

text \<open>
  The probe step as the specification words it: the same rules on the reported URL, and
  video on failure or where the rules are undecided.
\<close>

definition spec_probe_step :: "run_result \<Rightarrow> string" where
  "spec_probe_step r =
     (case r of
        RunRaised \<Rightarrow> ''video''
      | Completed out \<Rightarrow> spec_substring_rules ''video'' (strip out))"

section \<open>Concrete surroundings for the worked instances\<close>

text \<open>A downloader that gives the same answer to every probe.\<close>

definition answering :: "run_result \<Rightarrow> runner" where
  "answering r cmd = r"

text \<open>A launcher that plays back a list of outcomes, one per launch.\<close>

definition scripted :: "proc_result list \<Rightarrow> launcher" where
  "scripted outcomes k cmd = (if k < length outcomes then outcomes ! k else PopenRaised)"

definition env0 :: env where
  "env0 = \<lparr>timestamp = ''20240101_120000'', today = ''2024-01-01'', clock = 1704110400,
           agent_index = 3, tmp_dir = ''/tmp'', tmp_names = [''abcd1234'', ''efgh5678''],
           can_open = True, visitor_id = ''AbCdEfGhIjKlMnOpQrStUvWxYz'', ysc = ''0123456789a'',
           consent_number = 512\<rparr>"

definition env1 :: env where
  "env1 = \<lparr>timestamp = ''20240101_120230'', today = ''2024-01-01'', clock = 1704110550,
           agent_index = 7, tmp_dir = ''/tmp'', tmp_names = [''zyxw9876''],
           can_open = True, visitor_id = ''zYxWvUtSrQpOnMlKjIhGfEdCbA'', ysc = ''a9876543210'',
           consent_number = 100\<rparr>"

text \<open>A fresh run: nothing cached, no file, nothing launched.\<close>

definition world0 :: world where
  "world0 = \<lparr>cookie_file = None, files = Map.empty, launched = []\<rparr>"

text \<open>The same run after the first cookie file was made under \<open>env0\<close>.\<close>

definition world1 :: world where
  "world1 = \<lparr>cookie_file = Some ''/tmp/tmpabcd1234.txt'',
             files = [''/tmp/tmpabcd1234.txt'' \<mapsto> cookie_text env0], launched = []\<rparr>"

text \<open>
  A numeric limit as \<open>ask_for_limit\<close> returns it (\<open>str(limit)\<close> of a positive integer):
  a non-empty string of decimal digits. The only other value it returns is \<open>'all'\<close>.
\<close>

definition numeric_limit :: "string \<Rightarrow> bool" where
  "numeric_limit limit = (limit \<noteq> [] \<and> list_all (\<lambda>c. c \<in> set ''0123456789'') limit)"

section \<open>Facts about the string primitives\<close>

lemma startswith_iff_prefix: "startswith s p \<longleftrightarrow> prefix p s"
  by (induction s p rule: startswith.induct) auto

lemma startswith_append [simp]: "startswith (p @ s) p"
  by (simp add: startswith_iff_prefix)

lemma str_in_iff_sublist: "str_in p s \<longleftrightarrow> sublist p s"
proof (induction s)
  case Nil
  then show ?case by simp
next
  case (Cons c s)
  then show ?case
    by (cases p) (simp_all add: startswith_iff_prefix sublist_Cons_right)
qed

lemma str_in_append_left: "str_in p s \<Longrightarrow> str_in p (a @ s)"
  by (simp add: str_in_iff_sublist sublist_append)

lemma startswith_at_imp_str_in: "startswith url ''@'' \<Longrightarrow> str_in ''@'' url"
  by (cases url) simp_all

lemma host_prefix_first_char:
  "startswith_any url [''youtube.com'', ''www.youtube.com'', ''m.youtube.com'', ''youtu.be''] \<Longrightarrow>
   \<exists>rest. url = CHR ''y'' # rest \<or> url = CHR ''w'' # rest \<or> url = CHR ''m'' # rest"
  by (cases url) (auto simp: startswith_any_def)

text \<open>
  Normalization only prepends \<open>https://\<close> to a host name, or the site prefix to a handle;
  neither creates an occurrence of a marker that the input did not have.
\<close>

lemma normalize_url_keeps_absent:
  assumes "p \<in> set [''/shorts/'', ''/c/'', ''/channel/'', ''/user/'', ''@'']"
    and "\<not> str_in p url" and "\<not> str_in ''@'' url"
  shows "\<not> str_in p (normalize_url url)"
proof -
  from assms(3) have na: "\<not> startswith url ''@''"
    using startswith_at_imp_str_in by blast
  show ?thesis
  proof (cases "\<not> startswith_any url [''http://'', ''https://''] \<and>
      startswith_any url [''youtube.com'', ''www.youtube.com'', ''m.youtube.com'', ''youtu.be'']")
    case True
    then obtain rest where
      "url = CHR ''y'' # rest \<or> url = CHR ''w'' # rest \<or> url = CHR ''m'' # rest"
      using host_prefix_first_char by blast
    with assms True na show ?thesis
      by (auto simp: normalize_url_def)
  next
    case False
    with assms(2) na show ?thesis
      by (auto simp: normalize_url_def)
  qed
qed

section \<open>Content classifier: decision order\<close>

text \<open>
  C1, as stated, fails on the probe step. The specification says that the probe re-applies
  the classifier's substring rules to the URL the downloader reports. For the reported URL
  \<open>https://www.youtube.com/@a/videos?list=PL1\<close> those rules give channel (a channel
  marker together with \<open>/videos\<close>), while \<open>probe_url_type\<close> tests \<open>list=\<close> first and
  answers playlist.
\<close>

theorem probe_rules_differ:
  "probe_url_type (answering (Completed ''https://www.youtube.com/@a/videos?list=PL1''))
      ''https://www.youtube.com/@a'' = ''playlist''
   \<and> spec_probe_step (Completed ''https://www.youtube.com/@a/videos?list=PL1'') = ''channel''"
  by (simp add: probe_url_type_def answering_def spec_probe_step_def spec_substring_rules_def
      strip_def is_space_def any_in_def)

text \<open>
  C1, amended. \<open>get_content_type\<close> follows the decision order of the specification on the
  normalized URL, handing the channel-marker case without \<open>/videos\<close> to the probe. The
  probe has rules of its own on the stripped output of the downloader: \<open>list=\<close> gives
  playlist; otherwise a channel marker without \<open>watch?v=\<close> and without \<open>/shorts/\<close> gives
  channel; everything else, and a probe that raises, gives video.
\<close>

theorem get_content_type_decision_order:
  "get_content_type run url =
     spec_substring_rules (probe_url_type run (normalize_url url)) (normalize_url url)
   \<and> (run (probe_command u) = RunRaised \<longrightarrow> probe_url_type run u = ''video'')
   \<and> (run (probe_command u) = Completed out \<longrightarrow>
        probe_url_type run u =
          (if str_in ''list='' (strip out) then ''playlist''
           else if (str_in ''/channel/'' (strip out) \<or> str_in ''/c/'' (strip out)
                    \<or> str_in ''/user/'' (strip out) \<or> str_in ''@'' (strip out))
                   \<and> \<not> str_in ''watch?v='' (strip out) \<and> \<not> str_in ''/shorts/'' (strip out)
                then ''channel''
           else ''video''))"
  by (simp add: get_content_type_def spec_substring_rules_def probe_url_type_def any_in_def
      Let_def)

theorem get_content_type_decision_order_witness:
  "get_content_type (answering RunRaised) ''@somechannel'' = ''video''
   \<and> probe_url_type (answering RunRaised) ''https://www.youtube.com/@somechannel'' = ''video''
   \<and> probe_url_type (answering (Completed (''https://www.youtube.com/channel/UC123'' @ newline)))
        ''https://www.youtube.com/@somechannel'' = ''channel''"
  using get_content_type_decision_order
      [of "answering RunRaised" "''@somechannel''" "''https://www.youtube.com/@somechannel''"]
    get_content_type_decision_order
      [of "answering (Completed (''https://www.youtube.com/channel/UC123'' @ newline))"
          "''@somechannel''" "''https://www.youtube.com/@somechannel''"
          "''https://www.youtube.com/channel/UC123'' @ newline"]
  by (simp add: answering_def spec_substring_rules_def normalize_url_def strip_def is_space_def
      newline_def)

text \<open>
  C2, as stated, fails: a URL with \<open>list=\<close> and without \<open>/shorts/\<close> that also carries a
  channel marker is decided by the channel rule, which comes first. Here \<open>/c/\<close> and
  \<open>/videos\<close> make it a channel.
\<close>

theorem list_with_channel_marker_is_channel:
  "str_in ''list='' ''https://www.youtube.com/c/foo/videos?list=PL1''
   \<and> \<not> str_in ''/shorts/'' ''https://www.youtube.com/c/foo/videos?list=PL1''
   \<and> get_content_type (answering RunRaised) ''https://www.youtube.com/c/foo/videos?list=PL1''
       = ''channel''"
  by (simp add: get_content_type_def normalize_url_def startswith_any_def any_in_def)

text \<open>
  C2, amended: a URL that contains \<open>list=\<close> and none of \<open>/shorts/\<close>, \<open>/c/\<close>, \<open>/channel/\<close>,
  \<open>/user/\<close>, \<open>@\<close> is classified as playlist, whatever the downloader would answer.
\<close>

theorem list_without_markers_is_playlist:
  assumes "str_in ''list='' url" and "\<not> str_in ''/shorts/'' url"
    and "\<not> str_in ''/c/'' url" and "\<not> str_in ''/channel/'' url"
    and "\<not> str_in ''/user/'' url" and "\<not> str_in ''@'' url"
  shows "get_content_type run url = ''playlist''"
proof -
  have l: "str_in ''list='' (normalize_url url)"
    using assms(1) by (simp add: normalize_url_def str_in_append_left)
  have "\<not> str_in ''/shorts/'' (normalize_url url)" "\<not> str_in ''/c/'' (normalize_url url)"
    "\<not> str_in ''/channel/'' (normalize_url url)" "\<not> str_in ''/user/'' (normalize_url url)"
    "\<not> str_in ''@'' (normalize_url url)"
    using assms(2-6) by (simp_all add: normalize_url_keeps_absent)
  with l show ?thesis
    by (simp add: get_content_type_def any_in_def)
qed

theorem list_without_markers_is_playlist_witness:
  "str_in ''list='' ''youtube.com/playlist?list=PL1''
   \<and> get_content_type (answering RunRaised) ''youtube.com/playlist?list=PL1'' = ''playlist''"
  using list_without_markers_is_playlist
      [of "''youtube.com/playlist?list=PL1''" "answering RunRaised"]
  by simp

text \<open>
  C3: a URL whose normalized form contains \<open>/shorts/\<close> is classified as video, whatever
  else it contains and whatever the downloader would answer.
\<close>

theorem shorts_is_video:
  "str_in ''/shorts/'' (normalize_url url) \<Longrightarrow> get_content_type run url = ''video''"
  by (simp add: get_content_type_def)

theorem shorts_is_video_witness:
  "str_in ''/shorts/'' (normalize_url ''youtube.com/@chan/shorts/abc?list=PL1'')
   \<and> get_content_type (answering (Completed ''https://www.youtube.com/playlist?list=PL1''))
        ''youtube.com/@chan/shorts/abc?list=PL1'' = ''video''"
  using shorts_is_video
      [of "''youtube.com/@chan/shorts/abc?list=PL1''"
          "answering (Completed ''https://www.youtube.com/playlist?list=PL1'')"]
  by (simp add: normalize_url_def startswith_any_def)

text \<open>
  C9: whatever the input and whatever the downloader answers to the probe (an exception or
  any output), \<open>get_content_type\<close> returns one of the three labels.
\<close>

theorem get_content_type_range:
  "get_content_type run url \<in> {''video'', ''playlist'', ''channel''}"
  by (simp add: get_content_type_def probe_url_type_def Let_def split: run_result.split)

section \<open>URL normalizer\<close>

text \<open>
  C4: an input that starts with \<open>@\<close> is normalized to \<open>https://www.youtube.com/\<close> followed
  by the whole input.
\<close>

theorem normalize_url_handle:
  "startswith url ''@'' \<Longrightarrow> normalize_url url = ''https://www.youtube.com/'' @ url"
  by (simp add: normalize_url_def)

theorem normalize_url_handle_witness:
  "startswith ''@somechannel'' ''@''
   \<and> normalize_url ''@somechannel'' = ''https://www.youtube.com/@somechannel''"
  using normalize_url_handle [of "''@somechannel''"]
  by simp

text \<open>
  C10: normalizing twice is normalizing once; a normalized URL never starts with \<open>@\<close>; and
  whenever one of the two rewrite rules applied, the result starts with \<open>http://\<close> or
  \<open>https://\<close>.
\<close>

theorem normalize_url_idempotent:
  "normalize_url (normalize_url u) = normalize_url u
   \<and> \<not> startswith (normalize_url u) ''@''
   \<and> (startswith u ''@''
        \<or> (\<not> startswith_any u [''http://'', ''https://'']
            \<and> startswith_any u [''youtube.com'', ''www.youtube.com'', ''m.youtube.com'', ''youtu.be''])
      \<longrightarrow> startswith_any (normalize_url u) [''http://'', ''https://''])"
  by (auto simp: normalize_url_def startswith_any_def)

theorem normalize_url_idempotent_witness:
  "normalize_url (normalize_url ''m.youtube.com/watch?v=abc'') = ''https://m.youtube.com/watch?v=abc''
   \<and> normalize_url ''m.youtube.com/watch?v=abc'' = ''https://m.youtube.com/watch?v=abc''
   \<and> startswith_any (normalize_url ''m.youtube.com/watch?v=abc'') [''http://'', ''https://'']"
  using normalize_url_idempotent [of "''m.youtube.com/watch?v=abc''"]
  by (simp add: normalize_url_def startswith_any_def)

lemma path_join_nonempty: "name \<noteq> [] \<Longrightarrow> path_join dir name \<noteq> []"
  by (simp add: path_join_def)

lemma mktemp_fresh:
  assumes "mktemp e w = Inr path"
  shows "path \<noteq> [] \<and> files w path = None"
proof -
  from assms obtain cands where
    f: "find (\<lambda>f. files w f = None) cands = Some path"
    and c: "cands = map (\<lambda>name. path_join (tmp_dir e) (''tmp'' @ name @ ''.txt'')) (tmp_names e)"
    by (auto simp: mktemp_def split: option.splits)
  from f have "files w path = None" and "path \<in> set cands"
    by (auto simp: find_Some_iff)
  with c show ?thesis
    by (auto simp: path_join_nonempty)
qed

lemma create_cookie_file_caches:
  assumes "create_cookie_file e w = Inr (path, w1)"
  shows "cookie_file w1 = Some path \<and> path \<noteq> [] \<and> files w1 path \<noteq> None"
proof (cases "cookie_cached w")
  case True
  with assms show ?thesis
    by (auto simp: create_cookie_file_def cookie_cached_def split: option.splits)
next
  case False
  with assms obtain p where "mktemp e w = Inr p" and "path = p"
    and "w1 = w\<lparr>cookie_file := Some p, files := (files w)(p \<mapsto> cookie_text e)\<rparr>"
    by (auto simp: create_cookie_file_def split: sum.splits if_splits)
  then show ?thesis
    using mktemp_fresh by auto
qed

lemma create_cookie_file_fresh_run:
  "create_cookie_file env0 world0 = Inr (''/tmp/tmpabcd1234.txt'', world1)"
  by (simp add: create_cookie_file_def cookie_cached_def mktemp_def path_join_def env0_def
      world0_def world1_def)

section \<open>Cookie synthesizer: one file per run\<close>

text \<open>
  C7: once \<open>create_cookie_file\<close> has returned a path, any later call made while that path
  is still cached and the file still exists returns the same path and leaves the world as
  it is: no file is created or written. The later call may see another clock, other random
  values and other temporary names.
\<close>

theorem create_cookie_file_idempotent:
  assumes "create_cookie_file e1 w = Inr (path, w1)"
    and "cookie_file w2 = cookie_file w1" and "files w2 path \<noteq> None"
  shows "create_cookie_file e2 w2 = Inr (path, w2)"
proof -
  from create_cookie_file_caches [OF assms(1)] assms(2,3)
  have "cookie_cached w2" and "the (cookie_file w2) = path"
    by (simp_all add: cookie_cached_def)
  then show ?thesis
    by (simp add: create_cookie_file_def)
qed

theorem create_cookie_file_idempotent_witness:
  "create_cookie_file env0 world0 = Inr (''/tmp/tmpabcd1234.txt'', world1)
   \<and> create_cookie_file env1 world1 = Inr (''/tmp/tmpabcd1234.txt'', world1)"
proof -
  have "files world1 ''/tmp/tmpabcd1234.txt'' \<noteq> None"
    by (simp add: world1_def)
  from create_cookie_file_idempotent [OF create_cookie_file_fresh_run refl this, of env1]
  show ?thesis
    by (simp add: create_cookie_file_fresh_run)
qed

section \<open>Command builder\<close>

lemma build_download_command_shape:
  assumes "build_download_command e w url ct ft limit = Inr (cmd, w')"
  shows "\<exists>cookies. create_cookie_file e w = Inr (cookies, w') \<and> cmd =
      [''yt-dlp'', ''--ignore-errors'', ''--no-warnings'', ''--geo-bypass'', ''--add-metadata'',
       ''--user-agent'', get_random_user_agent e,
       ''--cookies'', cookies,
       ''--output'', output_template ct (timestamp e),
       ''--no-overwrites'', ''--continue'']
      @ format_options ft @ limit_options ct limit @ [''--verbose'', url]"
  using assms by (auto simp: build_download_command_def split: sum.splits)

lemma build_download_command_fresh_run:
  "build_download_command env0 world0 url ct ft limit =
     Inr ([''yt-dlp'', ''--ignore-errors'', ''--no-warnings'', ''--geo-bypass'', ''--add-metadata'',
           ''--user-agent'', get_random_user_agent env0,
           ''--cookies'', ''/tmp/tmpabcd1234.txt'',
           ''--output'', output_template ct (timestamp env0),
           ''--no-overwrites'', ''--continue'']
          @ format_options ft @ limit_options ct limit @ [''--verbose'', url], world1)"
  by (simp add: build_download_command_def create_cookie_file_fresh_run)

lemma timestamp_env0: "timestamp env0 = ''20240101_120000''"
  by (simp add: env0_def)

lemma limit_options_video: "limit_options ''video'' limit = []"
  by (simp add: limit_options_def)

lemma format_options_no_item_range:
  "\<not> suffix [''--playlist-items'', x] (base @ format_options ft)"
  by (simp add: suffix_to_prefix format_options_def)

text \<open>
  C6: in the command that \<open>build_download_command\<close> returns, the argument after
  \<open>--output\<close> is, for a video, a file name directly under the downloads folder; for a
  playlist, a file name in the sub-directory \<open>%(playlist_title)s\<close>; for a channel, a file
  name in the sub-directory \<open>%(uploader)s\<close>. In all three the file name is
  \<open>%(title)s_<timestamp>.%(ext)s\<close>.
\<close>

theorem output_template_by_content_type:
  assumes "build_download_command e w url ct ft limit = Inr (cmd, w')"
  shows "cmd ! 9 = ''--output'' \<and>
    (ct = ''video'' \<longrightarrow>
       cmd ! 10 = ''Downloads/'' @ ''%(title)s_'' @ timestamp e @ ''.%(ext)s'') \<and>
    (ct = ''playlist'' \<longrightarrow>
       cmd ! 10 = ''Downloads/'' @ ''%(playlist_title)s/'' @ ''%(title)s_'' @ timestamp e @ ''.%(ext)s'') \<and>
    (ct = ''channel'' \<longrightarrow>
       cmd ! 10 = ''Downloads/'' @ ''%(uploader)s/'' @ ''%(title)s_'' @ timestamp e @ ''.%(ext)s'')"
proof -
  from build_download_command_shape [OF assms] obtain cookies where
    "cmd =
      [''yt-dlp'', ''--ignore-errors'', ''--no-warnings'', ''--geo-bypass'', ''--add-metadata'',
       ''--user-agent'', get_random_user_agent e,
       ''--cookies'', cookies,
       ''--output'', output_template ct (timestamp e),
       ''--no-overwrites'', ''--continue'']
      @ format_options ft @ limit_options ct limit @ [''--verbose'', url]"
    by blast
  then have "cmd ! 9 = ''--output''" and "cmd ! 10 = output_template ct (timestamp e)"
    by (simp_all add: nth_Cons' nth_append)
  then show ?thesis
    by (simp add: output_template_def downloads_folder_def)
qed

theorem output_template_by_content_type_witness:
  "(case build_download_command env0 world0 ''https://youtu.be/x'' ''video'' ''best'' ''all'' of
      Inl err \<Rightarrow> False
    | Inr (cmd, w) \<Rightarrow> cmd ! 10 = ''Downloads/%(title)s_20240101_120000.%(ext)s'')
   \<and> (case build_download_command env0 world0 ''https://youtu.be/x'' ''playlist'' ''best'' ''5'' of
      Inl err \<Rightarrow> False
    | Inr (cmd, w) \<Rightarrow> cmd ! 10 = ''Downloads/%(playlist_title)s/%(title)s_20240101_120000.%(ext)s'')
   \<and> (case build_download_command env0 world0 ''https://youtu.be/x'' ''channel'' ''audio'' ''all'' of
      Inl err \<Rightarrow> False
    | Inr (cmd, w) \<Rightarrow> cmd ! 10 = ''Downloads/%(uploader)s/%(title)s_20240101_120000.%(ext)s'')"
  using output_template_by_content_type [OF build_download_command_fresh_run,
      of "''https://youtu.be/x''" "''video''" "''best''" "''all''"]
    output_template_by_content_type [OF build_download_command_fresh_run,
      of "''https://youtu.be/x''" "''playlist''" "''best''" "''5''"]
    output_template_by_content_type [OF build_download_command_fresh_run,
      of "''https://youtu.be/x''" "''channel''" "''audio''" "''all''"]
  by (simp add: build_download_command_fresh_run timestamp_env0 output_template_def
      downloads_folder_def)

lemma numeric_limit_not_all: "numeric_limit limit \<Longrightarrow> limit \<noteq> ''all''"
  by (auto simp: numeric_limit_def)

lemma format_options_cases:
  "format_options ft =
     (if ft = ''audio'' then
        [''--format'', ''bestaudio'', ''--extract-audio'', ''--audio-format'', ''mp3'',
         ''--audio-quality'', ''192K'']
      else if ft = ''best'' then
        [''--format'', ''bestvideo+bestaudio/best'', ''--merge-output-format'', ''mp4'']
      else [''--format'', ''best'', ''--merge-output-format'', ''mp4''])"
  by (simp add: format_options_def)

lemma limit_options_cases:
  "limit_options ct limit =
     (if (ct = ''playlist'' \<or> ct = ''channel'') \<and> limit \<noteq> ''all''
      then [''--playlist-items'', ''1-'' @ limit] else [])"
  by (simp add: limit_options_def)

lemma any_item_range_iff:
  assumes "cmd = ((base @ format_options ft) @ limit_options ct limit) @ [''--verbose'', url]"
  shows "(\<exists>r. suffix [''--playlist-items'', r, ''--verbose'', url] cmd)
           \<longleftrightarrow> (ct = ''playlist'' \<or> ct = ''channel'') \<and> limit \<noteq> ''all''"
proof -
  have s: "suffix [''--playlist-items'', r, ''--verbose'', url] cmd
      \<longleftrightarrow> suffix [''--playlist-items'', r] ((base @ format_options ft) @ limit_options ct limit)"
    for r
  proof -
    have "[''--playlist-items'', r, ''--verbose'', url] = [''--playlist-items'', r] @ [''--verbose'', url]"
      by simp
    then show ?thesis
      unfolding assms by (simp only: same_suffix_suffix)
  qed
  show ?thesis
  proof (cases "(ct = ''playlist'' \<or> ct = ''channel'') \<and> limit \<noteq> ''all''")
    case True
    then have "limit_options ct limit = [''--playlist-items'', ''1-'' @ limit]"
      by (simp add: limit_options_cases)
    then have "suffix [''--playlist-items'', ''1-'' @ limit]
        ((base @ format_options ft) @ limit_options ct limit)"
      by (simp add: suffix_def)
    with s True show ?thesis
      by blast
  next
    case False
    then have "limit_options ct limit = []"
      by (simp add: limit_options_cases)
    with False s format_options_no_item_range [of _ base ft] show ?thesis
      by simp
  qed
qed

text \<open>
  C8. After its thirteen leading arguments the command consists of the format options,
  then \<open>--playlist-items 1-<limit>\<close> when the content type is playlist or channel and the
  limit is not \<open>all\<close> and nothing otherwise, then \<open>--verbose\<close> and the URL. So, for a limit
  in the program's domain (\<open>all\<close> or numeric), an item range stands before
  \<open>--verbose <url>\<close> exactly when the content type is playlist or channel and the limit
  is numeric, and the range is then \<open>1-<limit>\<close>. For a video the limit does not change
  the result of \<open>build_download_command\<close> at all.
\<close>

theorem playlist_items_iff:
  "(build_download_command e w url ct ft limit = Inr (cmd, w') \<longrightarrow>
      drop 13 cmd =
        (if ft = ''audio'' then
           [''--format'', ''bestaudio'', ''--extract-audio'', ''--audio-format'', ''mp3'',
            ''--audio-quality'', ''192K'']
         else if ft = ''best'' then
           [''--format'', ''bestvideo+bestaudio/best'', ''--merge-output-format'', ''mp4'']
         else [''--format'', ''best'', ''--merge-output-format'', ''mp4''])
        @ (if (ct = ''playlist'' \<or> ct = ''channel'') \<and> limit \<noteq> ''all''
           then [''--playlist-items'', ''1-'' @ limit] else [])
        @ [''--verbose'', url]
      \<and> (limit = ''all'' \<or> numeric_limit limit \<longrightarrow>
           ((\<exists>r. suffix [''--playlist-items'', r, ''--verbose'', url] cmd)
              \<longleftrightarrow> (ct = ''playlist'' \<or> ct = ''channel'') \<and> numeric_limit limit))
      \<and> (suffix [''--playlist-items'', ''1-'' @ limit, ''--verbose'', url] cmd
           \<longleftrightarrow> (ct = ''playlist'' \<or> ct = ''channel'') \<and> limit \<noteq> ''all''))
   \<and> build_download_command e w url ''video'' ft limit
       = build_download_command e w url ''video'' ft limit'"
proof (intro conjI impI)
  assume b: "build_download_command e w url ct ft limit = Inr (cmd, w')"
  from build_download_command_shape [OF b] obtain cookies where
    full: "cmd =
      [''yt-dlp'', ''--ignore-errors'', ''--no-warnings'', ''--geo-bypass'', ''--add-metadata'',
       ''--user-agent'', get_random_user_agent e,
       ''--cookies'', cookies,
       ''--output'', output_template ct (timestamp e),
       ''--no-overwrites'', ''--continue'']
      @ format_options ft @ limit_options ct limit @ [''--verbose'', url]"
    by blast
  then obtain base where
    c: "cmd = ((base @ format_options ft) @ limit_options ct limit) @ [''--verbose'', url]"
    by fastforce
  have "drop 13 cmd = format_options ft @ limit_options ct limit @ [''--verbose'', url]"
    unfolding full by simp
  then show "drop 13 cmd =
        (if ft = ''audio'' then
           [''--format'', ''bestaudio'', ''--extract-audio'', ''--audio-format'', ''mp3'',
            ''--audio-quality'', ''192K'']
         else if ft = ''best'' then
           [''--format'', ''bestvideo+bestaudio/best'', ''--merge-output-format'', ''mp4'']
         else [''--format'', ''best'', ''--merge-output-format'', ''mp4''])
        @ (if (ct = ''playlist'' \<or> ct = ''channel'') \<and> limit \<noteq> ''all''
           then [''--playlist-items'', ''1-'' @ limit] else [])
        @ [''--verbose'', url]"
    by (simp only: format_options_cases limit_options_cases)
  {
    assume dom: "limit = ''all'' \<or> numeric_limit limit"
    then have "limit \<noteq> ''all'' \<longleftrightarrow> numeric_limit limit"
      using numeric_limit_not_all by blast
    with any_item_range_iff [OF c]
    show "(\<exists>r. suffix [''--playlist-items'', r, ''--verbose'', url] cmd)
              \<longleftrightarrow> (ct = ''playlist'' \<or> ct = ''channel'') \<and> numeric_limit limit"
      by simp
  }
  have e1: "[''--playlist-items'', ''1-'' @ limit, ''--verbose'', url]
      = [''--playlist-items'', ''1-'' @ limit] @ [''--verbose'', url]"
    by simp
  have s: "suffix [''--playlist-items'', ''1-'' @ limit, ''--verbose'', url] cmd
      \<longleftrightarrow> suffix [''--playlist-items'', ''1-'' @ limit]
            ((base @ format_options ft) @ limit_options ct limit)"
    unfolding c e1 by (rule same_suffix_suffix)
  show "suffix [''--playlist-items'', ''1-'' @ limit, ''--verbose'', url] cmd
         \<longleftrightarrow> (ct = ''playlist'' \<or> ct = ''channel'') \<and> limit \<noteq> ''all''"
  proof (cases "(ct = ''playlist'' \<or> ct = ''channel'') \<and> limit \<noteq> ''all''")
    case True
    then have "limit_options ct limit = [''--playlist-items'', ''1-'' @ limit]"
      by (simp add: limit_options_cases)
    with True s show ?thesis
      by (simp add: suffix_def)
  next
    case False
    then have "limit_options ct limit = []"
      by (simp add: limit_options_cases)
    with False s format_options_no_item_range [of "''1-'' @ limit" base ft] show ?thesis
      by simp
  qed
next
  show "build_download_command e w url ''video'' ft limit
      = build_download_command e w url ''video'' ft limit'"
    by (simp add: build_download_command_def limit_options_video split: sum.split)
qed

theorem playlist_items_iff_witness:
  "(case build_download_command env0 world0 ''https://youtu.be/x'' ''playlist'' ''audio'' ''5'' of
      Inl err \<Rightarrow> False
    | Inr (cmd, w) \<Rightarrow>
        drop 13 cmd =
          [''--format'', ''bestaudio'', ''--extract-audio'', ''--audio-format'', ''mp3'',
           ''--audio-quality'', ''192K'', ''--playlist-items'', ''1-5'', ''--verbose'',
           ''https://youtu.be/x''])
   \<and> (case build_download_command env0 world0 ''https://youtu.be/x'' ''channel'' ''best'' ''all'' of
      Inl err \<Rightarrow> False
    | Inr (cmd, w) \<Rightarrow>
        drop 13 cmd =
          [''--format'', ''bestvideo+bestaudio/best'', ''--merge-output-format'', ''mp4'',
           ''--verbose'', ''https://youtu.be/x''])
   \<and> (case build_download_command env0 world0 ''https://youtu.be/x'' ''video'' ''video'' ''5'' of
      Inl err \<Rightarrow> False
    | Inr (cmd, w) \<Rightarrow>
        drop 13 cmd =
          [''--format'', ''best'', ''--merge-output-format'', ''mp4'',
           ''--verbose'', ''https://youtu.be/x''])
   \<and> numeric_limit ''5''"
  using playlist_items_iff [where url = "''https://youtu.be/x''" and ct = "''playlist''"
        and ft = "''audio''" and limit = "''5''",
      THEN conjunct1, THEN mp, OF build_download_command_fresh_run]
    playlist_items_iff [where url = "''https://youtu.be/x''" and ct = "''channel''"
        and ft = "''best''" and limit = "''all''",
      THEN conjunct1, THEN mp, OF build_download_command_fresh_run]
    playlist_items_iff [where url = "''https://youtu.be/x''" and ct = "''video''"
        and ft = "''video''" and limit = "''5''",
      THEN conjunct1, THEN mp, OF build_download_command_fresh_run]
  by (simp add: build_download_command_fresh_run numeric_limit_def format_options_def
      limit_options_def)

section \<open>Download: one fallback, no second retry\<close>

lemma download_fallback_result:
  "download_fallback ts popen w url ct ft limit =
     (popen (length (launched w)) (fallback_command ts url ct ft limit) = Exited 0,
      w\<lparr>launched := launched w @ [fallback_command ts url ct ft limit]\<rparr>)"
  by (simp add: download_fallback_def Let_def split: proc_result.split)

lemma fallback_command_cases:
  "fallback_command ts url ct ft limit =
     [''yt-dlp'', ''--ignore-errors'', ''--format'', ''best'',
      ''--output'',
      (if ct = ''video'' then ''Downloads/%(title)s_fallback_'' @ ts @ ''.%(ext)s''
       else if ct = ''playlist'' then
         ''Downloads/%(playlist_title)s/%(title)s_fallback_'' @ ts @ ''.%(ext)s''
       else ''Downloads/%(uploader)s/%(title)s_fallback_'' @ ts @ ''.%(ext)s''),
      ''--no-overwrites'', ''--geo-bypass'']
     @ (if ft = ''audio'' then [''--extract-audio'', ''--audio-format'', ''mp3''] else [])
     @ (if (ct = ''playlist'' \<or> ct = ''channel'') \<and> limit \<noteq> ''all''
        then [''--playlist-items'', ''1-'' @ limit] else [])
     @ [url]"
  by (simp add: fallback_command_def fallback_template_def downloads_folder_def
      limit_options_cases)

lemma supported_best: "''best'' \<in> set supported_formats"
  by (simp add: supported_formats_def)

text \<open>
  C5. Take a request whose format is supported and whose command can be built, so that the
  primary process is launched; \<open>rct\<close> is the content type the request resolves to and
  \<open>fb\<close> the fallback command, written out. If the primary launch exits with status 0,
  \<open>download\<close> returns true and the primary command is the only launch. If it raises or
  exits with another status, exactly one more command is launched, namely \<open>fb\<close>, and
  \<open>download\<close> returns whether that one exited with status 0: false when the fallback
  raises or exits non-zero, with no further launch. The fallback is the reduced command:
  it has fewer arguments than the primary, and none of the primary's options
  \<open>--no-warnings\<close>, \<open>--add-metadata\<close>, \<open>--user-agent\<close>, \<open>--cookies\<close>, \<open>--continue\<close>,
  \<open>--verbose\<close> stands before its URL.
\<close>

theorem download_one_fallback:
  assumes "ft \<in> set supported_formats"
    and "rct = resolve_content_type run ct (normalize_url url)"
    and "build_download_command e w (normalize_url url) rct ft limit = Inr (cmd, w1)"
    and "fb =
      [''yt-dlp'', ''--ignore-errors'', ''--format'', ''best'',
       ''--output'',
       (if rct = ''video'' then ''Downloads/%(title)s_fallback_'' @ fts @ ''.%(ext)s''
        else if rct = ''playlist'' then
          ''Downloads/%(playlist_title)s/%(title)s_fallback_'' @ fts @ ''.%(ext)s''
        else ''Downloads/%(uploader)s/%(title)s_fallback_'' @ fts @ ''.%(ext)s''),
       ''--no-overwrites'', ''--geo-bypass'']
      @ (if ft = ''audio'' then [''--extract-audio'', ''--audio-format'', ''mp3''] else [])
      @ (if (rct = ''playlist'' \<or> rct = ''channel'') \<and> limit \<noteq> ''all''
         then [''--playlist-items'', ''1-'' @ limit] else [])
      @ [normalize_url url]"
  shows
    "(popen (length (launched w1)) cmd = Exited 0 \<longrightarrow>
        download e fts run popen w url ct ft limit
          = Inr (True, w1\<lparr>launched := launched w1 @ [cmd]\<rparr>))
     \<and> (popen (length (launched w1)) cmd \<noteq> Exited 0 \<longrightarrow>
        download e fts run popen w url ct ft limit
          = Inr (popen (Suc (length (launched w1))) fb = Exited 0,
                 w1\<lparr>launched := launched w1 @ [cmd, fb]\<rparr>))
     \<and> length fb < length cmd
     \<and> list_all (\<lambda>opt. opt \<in> set cmd \<and> opt \<notin> set (butlast fb))
          [''--no-warnings'', ''--add-metadata'', ''--user-agent'', ''--cookies'',
           ''--continue'', ''--verbose'']"
proof -
  have fb: "fb = fallback_command fts (normalize_url url) rct ft limit"
    unfolding assms(4) by (simp only: fallback_command_cases)
  from build_download_command_shape [OF assms(3)] obtain cookies where
    cmd: "cmd =
      [''yt-dlp'', ''--ignore-errors'', ''--no-warnings'', ''--geo-bypass'', ''--add-metadata'',
       ''--user-agent'', get_random_user_agent e,
       ''--cookies'', cookies,
       ''--output'', output_template rct (timestamp e),
       ''--no-overwrites'', ''--continue'']
      @ format_options ft @ limit_options rct limit @ [''--verbose'', normalize_url url]"
    by blast
  have run: "(popen (length (launched w1)) cmd = Exited 0 \<longrightarrow>
        download e fts run popen w url ct ft limit
          = Inr (True, w1\<lparr>launched := launched w1 @ [cmd]\<rparr>))
     \<and> (popen (length (launched w1)) cmd \<noteq> Exited 0 \<longrightarrow>
        download e fts run popen w url ct ft limit
          = Inr (popen (Suc (length (launched w1))) fb = Exited 0,
                 w1\<lparr>launched := launched w1 @ [cmd, fb]\<rparr>))"
    using assms(1) assms(3) [unfolded assms(2)]
    unfolding fb assms(2)
    by (cases "popen (length (launched w1)) cmd")
       (simp_all add: download_def Let_def download_fallback_result)
  have len: "length fb < length cmd"
    unfolding assms(4) cmd by (simp add: format_options_cases limit_options_cases)
  have "butlast fb =
      [''yt-dlp'', ''--ignore-errors'', ''--format'', ''best'',
       ''--output'',
       (if rct = ''video'' then ''Downloads/%(title)s_fallback_'' @ fts @ ''.%(ext)s''
        else if rct = ''playlist'' then
          ''Downloads/%(playlist_title)s/%(title)s_fallback_'' @ fts @ ''.%(ext)s''
        else ''Downloads/%(uploader)s/%(title)s_fallback_'' @ fts @ ''.%(ext)s''),
       ''--no-overwrites'', ''--geo-bypass'']
      @ (if ft = ''audio'' then [''--extract-audio'', ''--audio-format'', ''mp3''] else [])
      @ (if (rct = ''playlist'' \<or> rct = ''channel'') \<and> limit \<noteq> ''all''
         then [''--playlist-items'', ''1-'' @ limit] else [])"
    unfolding assms(4) by (simp add: butlast_append)
  then have absent: "list_all (\<lambda>opt. opt \<notin> set (butlast fb))
      [''--no-warnings'', ''--add-metadata'', ''--user-agent'', ''--cookies'',
       ''--continue'', ''--verbose'']"
    by simp
  have present: "list_all (\<lambda>opt. opt \<in> set cmd)
      [''--no-warnings'', ''--add-metadata'', ''--user-agent'', ''--cookies'',
       ''--continue'', ''--verbose'']"
    unfolding cmd by simp
  from run len absent present show ?thesis
    by simp
qed

theorem download_one_fallback_witness:
  "map_sum id (\<lambda>(ok, w). (ok, launched w))
      (download env0 ''20240101_120005'' (answering RunRaised)
         (scripted [Exited 1, Exited 1, Exited 0]) world0 ''youtu.be/x'' (Some ''video'')
         ''best'' ''all'')
     = Inr (False,
        [[''yt-dlp'', ''--ignore-errors'', ''--no-warnings'', ''--geo-bypass'', ''--add-metadata'',
          ''--user-agent'',
          ''Mozilla/5.0 (Windows NT 10.0; Win64; x64; rv:109.0) Gecko/20100101 Firefox/112.0'',
          ''--cookies'', ''/tmp/tmpabcd1234.txt'',
          ''--output'', ''Downloads/%(title)s_20240101_120000.%(ext)s'',
          ''--no-overwrites'', ''--continue'',
          ''--format'', ''bestvideo+bestaudio/best'', ''--merge-output-format'', ''mp4'',
          ''--verbose'', ''https://youtu.be/x''],
         [''yt-dlp'', ''--ignore-errors'', ''--format'', ''best'',
          ''--output'', ''Downloads/%(title)s_fallback_20240101_120005.%(ext)s'',
          ''--no-overwrites'', ''--geo-bypass'', ''https://youtu.be/x'']])
   \<and> map_sum id (\<lambda>(ok, w). (ok, tl (launched w)))
      (download env0 ''20240101_120005'' (answering RunRaised)
         (scripted [PopenRaised, Exited 0]) world0 ''youtu.be/x'' (Some ''playlist'')
         ''audio'' ''5'')
     = Inr (True,
        [[''yt-dlp'', ''--ignore-errors'', ''--format'', ''best'',
          ''--output'', ''Downloads/%(playlist_title)s/%(title)s_fallback_20240101_120005.%(ext)s'',
          ''--no-overwrites'', ''--geo-bypass'',
          ''--extract-audio'', ''--audio-format'', ''mp3'',
          ''--playlist-items'', ''1-5'', ''https://youtu.be/x'']])
   \<and> map_sum id (\<lambda>(ok, w). (ok, tl (launched w)))
      (download env0 ''20240101_120005'' (answering RunRaised)
         (scripted [Exited 0, Exited 1]) world0 ''youtu.be/x'' (Some ''video'') ''best'' ''all'')
     = Inr (True, [])"
  using download_one_fallback [where url = "''youtu.be/x''" and run = "answering RunRaised"
        and ct = "Some ''video''" and ft = "''best''" and limit = "''all''"
        and fts = "''20240101_120005''"
        and popen = "scripted [Exited 1, Exited 1, Exited 0]",
      OF supported_best refl build_download_command_fresh_run refl]
    download_one_fallback [where url = "''youtu.be/x''" and run = "answering RunRaised"
        and ct = "Some ''playlist''" and ft = "''audio''" and limit = "''5''"
        and fts = "''20240101_120005''"
        and popen = "scripted [PopenRaised, Exited 0]",
      OF _ refl build_download_command_fresh_run refl]
    download_one_fallback [where url = "''youtu.be/x''" and run = "answering RunRaised"
        and ct = "Some ''video''" and ft = "''best''" and limit = "''all''"
        and fts = "''20240101_120005''"
        and popen = "scripted [Exited 0, Exited 1]",
      OF supported_best refl build_download_command_fresh_run refl]
  by (simp add: scripted_def world1_def supported_formats_def resolve_content_type_def
      normalize_url_def startswith_any_def get_random_user_agent_def user_agents_def env0_def
      output_template_def downloads_folder_def format_options_def limit_options_def)

end
